theory Spec2Isabelle
  imports Complex_Main "HOL-Library.AList"
begin

section \<open>Python values used by the program\<close>

text \<open>
  The exceptions the modelled code can raise. A function that can raise returns
  \<open>py_error + 'a\<close>, with \<open>Inl\<close> for the exception.
\<close>

datatype py_error = AssertionError | IndexError | KeyError | ValueError | ZeroDivisionError

text \<open>
  \<open>seq[i]\<close> on a tuple or list of length \<open>n\<close>: the indices 0 to \<open>n - 1\<close> read from
  the front, \<open>-n\<close> to \<open>-1\<close> from the back, and any other index raises IndexError.
\<close>

definition getitem :: "'a list \<Rightarrow> int \<Rightarrow> py_error + 'a" where
  "getitem xs i =
     (if 0 \<le> i \<and> i < int (length xs) then Inr (xs ! nat i)
      else if - int (length xs) \<le> i \<and> i < 0 then Inr (xs ! nat (int (length xs) + i))
      else Inl IndexError)"

text \<open>
  \<open>seq.index(x)\<close>: the position of the first element equal to \<open>x\<close>, ValueError
  when there is none.
\<close>

fun index :: "'a list \<Rightarrow> 'a \<Rightarrow> py_error + int" where
  "index [] x = Inl ValueError"
| "index (y # ys) x =
     (if y = x then Inr 0
      else case index ys x of Inl e \<Rightarrow> Inl e | Inr i \<Rightarrow> Inr (i + 1))"

text \<open>
  \<open>random.choice(seq)\<close>: IndexError on an empty sequence, otherwise the element at
  a position the generator draws below \<open>len(seq)\<close>. The draw is the argument \<open>r\<close>,
  reduced modulo the length, so every element is the result for some \<open>r\<close>.
\<close>

definition choice :: "nat \<Rightarrow> 'a list \<Rightarrow> py_error + 'a" where
  "choice r xs = (if xs = [] then Inl IndexError else Inr (xs ! (r mod length xs)))"

text \<open>
  \<open>a / b\<close> on integers. Python rounds the exact quotient to the nearest double; the
  model keeps the exact quotient.
\<close>

definition truediv :: "int \<Rightarrow> int \<Rightarrow> py_error + rat" where
  "truediv a b = (if b = 0 then Inl ZeroDivisionError else Inr (of_int a / of_int b))"

section \<open>exercises.py: ExerciseState\<close>

record ExerciseState =
  total_attempts :: int
  correct_attempts :: int
  current_streak :: int

text \<open>The dataclass defaults: \<open>ExerciseState()\<close>.\<close>

definition ExerciseState_init :: ExerciseState where
  "ExerciseState_init = \<lparr>total_attempts = 0, correct_attempts = 0, current_streak = 0\<rparr>"

definition register_attempt :: "ExerciseState \<Rightarrow> bool \<Rightarrow> ExerciseState" where
  "register_attempt s correct =
     (let s1 = s\<lparr>total_attempts := total_attempts s + 1\<rparr>
      in if correct
         then (let s2 = s1\<lparr>correct_attempts := correct_attempts s1 + 1\<rparr>
               in s2\<lparr>current_streak := current_streak s2 + 1\<rparr>)
         else s1\<lparr>current_streak := 0\<rparr>)"

definition accuracy :: "ExerciseState \<Rightarrow> py_error + rat" where
  "accuracy s =
     (if total_attempts s = 0 then Inr 0
      else truediv (correct_attempts s) (total_attempts s))"

text \<open>A sequence of \<open>register_attempt\<close> calls on one state, in order.\<close>

definition register_attempts :: "ExerciseState \<Rightarrow> bool list \<Rightarrow> ExerciseState" where
  "register_attempts s outcomes = foldl register_attempt s outcomes"

text \<open>The length of the trailing run of correct outcomes of a sequence.\<close>

definition trailing_run :: "bool list \<Rightarrow> nat" where
  "trailing_run outcomes = length (takeWhile (\<lambda>b. b) (rev outcomes))"

section \<open>Python strings\<close>

text \<open>
  A \<open>str\<close> is a sequence of code points. The model covers the code points below 256:
  the \<open>char\<close> with code \<open>n\<close> stands for the code point \<open>n\<close>, which is enough for
  every string of the catalog (the accented letters of French lie between U+00E0 and
  U+00FC). There \<open>str.isspace\<close> holds of U+0009 to U+000D, U+001C to U+0020, U+0085 and
  U+00A0, and \<open>str.lower\<close> moves A to Z and U+00C0 to U+00DE (without the
  multiplication sign U+00D7) up by 32 and leaves every other code point alone.
\<close>

definition isspace :: "char \<Rightarrow> bool" where
  "isspace c =
     (let n = (of_char c :: nat)
      in (9 \<le> n \<and> n \<le> 13) \<or> (28 \<le> n \<and> n \<le> 32) \<or> n = 133 \<or> n = 160)"

definition lower_char :: "char \<Rightarrow> char" where
  "lower_char c =
     (let n = (of_char c :: nat)
      in if (65 \<le> n \<and> n \<le> 90) \<or> (192 \<le> n \<and> n \<le> 222 \<and> n \<noteq> 215)
         then char_of (n + 32) else c)"

definition lower :: "string \<Rightarrow> string" where
  "lower s = map lower_char s"

text \<open>
  \<open>s.strip()\<close>: skip the whitespace at the left end, then the whitespace at the
  right end of what is left.
\<close>

definition strip :: "string \<Rightarrow> string" where
  "strip s = rev (dropWhile isspace (rev (dropWhile isspace s)))"

section \<open>data.py: the catalog\<close>

text \<open>The frozen dataclasses are datatypes with the fields as selectors.\<close>

datatype VocabularyItem =
  VocabularyItem (french: string) (english: string) (category: string)

definition VOCABULARY :: "VocabularyItem list" where
  "VOCABULARY =
    [VocabularyItem ''bonjour'' ''hello'' ''greetings'',
     VocabularyItem ''au revoir'' ''goodbye'' ''greetings'',
     VocabularyItem (''s'' @ CHR 0x27 # ''il vous pla'' @ CHR 0xEE # ''t'') ''please'' ''greetings'',
     VocabularyItem ''merci'' ''thank you'' ''greetings'',
     VocabularyItem ''pardon'' ''sorry'' ''greetings'',
     VocabularyItem ''pain'' ''bread'' ''food'',
     VocabularyItem ''fromage'' ''cheese'' ''food'',
     VocabularyItem ''eau'' ''water'' ''food'',
     VocabularyItem ''pomme'' ''apple'' ''food'',
     VocabularyItem ''vin'' ''wine'' ''food'',
     VocabularyItem ''maison'' ''house'' ''home'',
     VocabularyItem ''chaise'' ''chair'' ''home'',
     VocabularyItem ''porte'' ''door'' ''home'',
     VocabularyItem (''fen'' @ CHR 0xEA # ''tre'') ''window'' ''home'',
     VocabularyItem ''cuisine'' ''kitchen'' ''home'',
     VocabularyItem ''chat'' ''cat'' ''animals'',
     VocabularyItem ''chien'' ''dog'' ''animals'',
     VocabularyItem ''oiseau'' ''bird'' ''animals'',
     VocabularyItem ''poisson'' ''fish'' ''animals'',
     VocabularyItem ''cheval'' ''horse'' ''animals'']"

datatype ConjugationPattern =
  ConjugationPattern (infinitive: string) (je: string) (tu: string) (il: string)
    (nous: string) (vous: string) (ils: string)

definition pronouns :: "ConjugationPattern \<Rightarrow> string list" where
  "pronouns p = [''je'', ''tu'', ''il/elle'', ''nous'', ''vous'', ''ils/elles'']"

definition answers :: "ConjugationPattern \<Rightarrow> string list" where
  "answers p = [je p, tu p, il p, nous p, vous p, ils p]"

definition PRESENT_TENSE :: "ConjugationPattern list" where
  "PRESENT_TENSE =
    [ConjugationPattern ''parler'' ''parle'' ''parles'' ''parle'' ''parlons'' ''parlez'' ''parlent'',
     ConjugationPattern ''finir'' ''finis'' ''finis'' ''finit'' ''finissons'' ''finissez''
       ''finissent'',
     ConjugationPattern ''avoir'' ''ai'' ''as'' ''a'' ''avons'' ''avez'' ''ont'',
     ConjugationPattern (CHR 0xEA # ''tre'') ''suis'' ''es'' ''est'' ''sommes''
       (CHR 0xEA # ''tes'') ''sont'',
     ConjugationPattern ''aller'' ''vais'' ''vas'' ''va'' ''allons'' ''allez'' ''vont'']"

text \<open>
  \<open>not category\<close>: None and the empty string are falsy.
\<close>

definition falsy :: "string option \<Rightarrow> bool" where
  "falsy c = (case c of None \<Rightarrow> True | Some s \<Rightarrow> s = [])"

text \<open>
  The two selection functions read the module-level tuples \<open>VOCABULARY\<close> and
  \<open>PRESENT_TENSE\<close>; here the tuple read is the first argument, and the callers in
  exercises.py pass the constants above. The second argument is the generator's draw.
\<close>

definition random_vocabulary_item ::
    "VocabularyItem list \<Rightarrow> nat \<Rightarrow> string option \<Rightarrow> py_error + VocabularyItem" where
  "random_vocabulary_item vocabulary r c =
     (if falsy c \<or> c = Some ''all'' then choice r vocabulary
      else (let filtered = filter (\<lambda>item. Some (VocabularyItem.category item) = c) vocabulary
            in if filtered = [] then choice r vocabulary else choice r filtered))"

definition random_conjugation_pattern ::
    "ConjugationPattern list \<Rightarrow> nat \<Rightarrow> py_error + ConjugationPattern" where
  "random_conjugation_pattern present_tense r = choice r present_tense"

section \<open>exercises.py: the two exercises\<close>

record FlashcardExercise =
  category :: "string option"
  state :: ExerciseState
  current_item :: "VocabularyItem option"

text \<open>The dataclass defaults: \<open>FlashcardExercise()\<close>.\<close>

definition FlashcardExercise_init :: FlashcardExercise where
  "FlashcardExercise_init =
     \<lparr>category = None, state = ExerciseState_init, current_item = None\<rparr>"

definition FlashcardExercise_next_prompt ::
    "nat \<Rightarrow> FlashcardExercise \<Rightarrow> py_error + (VocabularyItem \<times> FlashcardExercise)" where
  "FlashcardExercise_next_prompt r e =
     (case random_vocabulary_item VOCABULARY r (FlashcardExercise.category e) of
        Inl err \<Rightarrow> Inl err
      | Inr item \<Rightarrow> Inr (item, e\<lparr>current_item := Some item\<rparr>))"

definition FlashcardExercise_check_answer ::
    "nat \<Rightarrow> FlashcardExercise \<Rightarrow> string \<Rightarrow> py_error + (bool \<times> FlashcardExercise)" where
  "FlashcardExercise_check_answer r e answer =
     (case (if current_item e = None
            then (case FlashcardExercise_next_prompt r e of
                    Inl err \<Rightarrow> Inl err
                  | Inr (item, e1) \<Rightarrow> Inr e1)
            else Inr e) of
        Inl err \<Rightarrow> Inl err
      | Inr e1 \<Rightarrow>
          (case current_item e1 of
             None \<Rightarrow> Inl AssertionError
           | Some item \<Rightarrow>
               (let correct = (lower (strip answer) = lower (english item))
                in Inr (correct,
                     e1\<lparr>FlashcardExercise.state :=
                          register_attempt (FlashcardExercise.state e1) correct\<rparr>))))"

text \<open>\<open>a % b\<close> on integers: the result has the sign of the divisor.\<close>

definition pymod :: "int \<Rightarrow> int \<Rightarrow> py_error + int" where
  "pymod a b = (if b = 0 then Inl ZeroDivisionError else Inr (a mod b))"

record ConjugationExercise =
  state :: ExerciseState
  current_pattern :: "ConjugationPattern option"
  current_index :: int

text \<open>The dataclass defaults: \<open>ConjugationExercise()\<close>.\<close>

definition ConjugationExercise_init :: ConjugationExercise where
  "ConjugationExercise_init =
     \<lparr>state = ExerciseState_init, current_pattern = None, current_index = 0\<rparr>"

definition ConjugationExercise_next_prompt ::
    "nat \<Rightarrow> ConjugationExercise \<Rightarrow> py_error + ((string \<times> string) \<times> ConjugationExercise)" where
  "ConjugationExercise_next_prompt r e =
     (case random_conjugation_pattern PRESENT_TENSE r of
        Inl err \<Rightarrow> Inl err
      | Inr pattern \<Rightarrow>
          (case index (pronouns pattern) ''je'' of
             Inl err \<Rightarrow> Inl err
           | Inr i \<Rightarrow>
               (let e1 = e\<lparr>current_pattern := Some pattern, current_index := i\<rparr>
                in case getitem (pronouns pattern) (current_index e1) of
                     Inl err \<Rightarrow> Inl err
                   | Inr pronoun \<Rightarrow> Inr ((infinitive pattern, pronoun), e1))))"

definition ConjugationExercise_cycle_prompt ::
    "nat \<Rightarrow> ConjugationExercise \<Rightarrow> py_error + ((string \<times> string) \<times> ConjugationExercise)" where
  "ConjugationExercise_cycle_prompt r e =
     (case current_pattern e of
        None \<Rightarrow> ConjugationExercise_next_prompt r e
      | Some pattern \<Rightarrow>
          (case pymod (current_index e + 1) (int (length (pronouns pattern))) of
             Inl err \<Rightarrow> Inl err
           | Inr i \<Rightarrow>
               (let e1 = e\<lparr>current_index := i\<rparr>
                in case getitem (pronouns pattern) (current_index e1) of
                     Inl err \<Rightarrow> Inl err
                   | Inr pronoun \<Rightarrow> Inr ((infinitive pattern, pronoun), e1))))"

definition ConjugationExercise_check_answer ::
    "nat \<Rightarrow> ConjugationExercise \<Rightarrow> string \<Rightarrow> py_error + (bool \<times> ConjugationExercise)" where
  "ConjugationExercise_check_answer r e answer =
     (case (if current_pattern e = None
            then (case ConjugationExercise_next_prompt r e of
                    Inl err \<Rightarrow> Inl err
                  | Inr (prompt, e1) \<Rightarrow> Inr e1)
            else Inr e) of
        Inl err \<Rightarrow> Inl err
      | Inr e1 \<Rightarrow>
          (case current_pattern e1 of
             None \<Rightarrow> Inl AssertionError
           | Some pattern \<Rightarrow>
               (case getitem (answers pattern) (current_index e1) of
                  Inl err \<Rightarrow> Inl err
                | Inr expected \<Rightarrow>
                    (let correct = (lower (strip answer) = lower expected)
                     in Inr (correct,
                          e1\<lparr>ConjugationExercise.state :=
                               register_attempt (ConjugationExercise.state e1) correct\<rparr>)))))"

text \<open>
  Consecutive \<open>cycle_prompt\<close> calls on one exercise, one draw per call: the values
  the calls return, in order, and the exercise after the last call.
\<close>

fun cycle_prompts ::
    "nat list \<Rightarrow> ConjugationExercise \<Rightarrow>
       py_error + ((string \<times> string) list \<times> ConjugationExercise)" where
  "cycle_prompts [] e = Inr ([], e)"
| "cycle_prompts (r # rs) e =
     (case ConjugationExercise_cycle_prompt r e of
        Inl err \<Rightarrow> Inl err
      | Inr (prompt, e1) \<Rightarrow>
          (case cycle_prompts rs e1 of
             Inl err \<Rightarrow> Inl err
           | Inr (prompts, e2) \<Rightarrow> Inr (prompt # prompts, e2)))"

section \<open>exercises.py: ExerciseRegistry\<close>

text \<open>
  The instances a factory can build. The registry's dict keeps its keys in insertion
  order, and assigning to a key that is present keeps the key's place: an association
  list under \<open>AList.update\<close>.
\<close>

datatype exercise = Flashcards FlashcardExercise | Conjugation ConjugationExercise

record 'a ExerciseRegistry =
  creators :: "(string \<times> (unit \<Rightarrow> 'a)) list"

definition ExerciseRegistry_init :: "'a ExerciseRegistry" where
  "ExerciseRegistry_init = \<lparr>creators = []\<rparr>"

definition register ::
    "'a ExerciseRegistry \<Rightarrow> string \<Rightarrow> (unit \<Rightarrow> 'a) \<Rightarrow> 'a ExerciseRegistry" where
  "register reg name factory = reg\<lparr>creators := AList.update name factory (creators reg)\<rparr>"

definition create :: "'a ExerciseRegistry \<Rightarrow> string \<Rightarrow> py_error + 'a" where
  "create reg name =
     (if name \<notin> fst ` set (creators reg) then Inl KeyError
      else case map_of (creators reg) name of
             None \<Rightarrow> Inl KeyError
           | Some factory \<Rightarrow> Inr (factory ()))"

definition names :: "'a ExerciseRegistry \<Rightarrow> string list" where
  "names reg = map fst (creators reg)"

definition EXERCISES :: "exercise ExerciseRegistry" where
  "EXERCISES =
     register
       (register ExerciseRegistry_init ''Flashcards'' (\<lambda>_. Flashcards FlashcardExercise_init))
       ''Conjugation'' (\<lambda>_. Conjugation ConjugationExercise_init)"

text \<open>A sequence of \<open>register\<close> calls on one registry, in order.\<close>

definition registers ::
    "'a ExerciseRegistry \<Rightarrow> (string \<times> (unit \<Rightarrow> 'a)) list \<Rightarrow> 'a ExerciseRegistry" where
  "registers reg calls = foldl (\<lambda>g (name, factory). register g name factory) reg calls"

text \<open>The elements of a list, each once, in the order of their first occurrence.\<close>

definition first_occurrences :: "'a list \<Rightarrow> 'a list" where
  "first_occurrences xs = rev (remdups (rev xs))"

section \<open>Session state: counters, streak and accuracy\<close>

lemma register_attempts_snoc:
  "register_attempts s (outcomes @ [c]) = register_attempt (register_attempts s outcomes) c"
  by (simp add: register_attempts_def)

lemma trailing_run_snoc:
  "trailing_run (outcomes @ [c]) = (if c then Suc (trailing_run outcomes) else 0)"
  by (simp add: trailing_run_def)

lemma trailing_run_le: "trailing_run outcomes \<le> length (filter (\<lambda>b. b) outcomes)"
  by (induction outcomes rule: rev_induct) (simp_all add: trailing_run_snoc trailing_run_def)

text \<open>
  After any sequence of calls from the initial state the three counters are the number
  of calls, the number of correct outcomes and the trailing run of correct outcomes.
\<close>

lemma register_attempts_counts:
  "register_attempts ExerciseState_init outcomes =
     \<lparr>total_attempts = int (length outcomes),
      correct_attempts = int (length (filter (\<lambda>b. b) outcomes)),
      current_streak = int (trailing_run outcomes)\<rparr>"
proof (induction outcomes rule: rev_induct)
  case Nil
  show ?case by (simp add: register_attempts_def ExerciseState_init_def trailing_run_def)
next
  case (snoc c outcomes)
  show ?case
    unfolding register_attempts_snoc snoc.IH
    by (simp add: register_attempt_def trailing_run_snoc)
qed

text \<open>
  C1. Take any sequence of \<open>register_attempt\<close> calls from the initial state (0,0,0),
  and one more call with outcome \<open>c\<close>. After that call \<open>correct_attempts\<close> is at most
  \<open>total_attempts\<close>, \<open>total_attempts\<close> is one more than before, and \<open>current_streak\<close>
  is the length of the trailing run of correct outcomes of the whole sequence: one more
  than before when \<open>c\<close> is correct, 0 when it is not.
\<close>

theorem register_attempt_sequence:
  "let before = register_attempts ExerciseState_init outcomes;
       after = register_attempts ExerciseState_init (outcomes @ [c])
   in after = register_attempt before c
      \<and> correct_attempts after \<le> total_attempts after
      \<and> total_attempts after = total_attempts before + 1
      \<and> current_streak after = int (trailing_run (outcomes @ [c]))
      \<and> current_streak after = (if c then current_streak before + 1 else 0)"
proof -
  have "int (length (filter (\<lambda>b. b) outcomes)) \<le> int (length outcomes) + 1"
    using length_filter_le [of "\<lambda>b. b" outcomes] by linarith
  then show ?thesis
    by (simp add: Let_def register_attempts_snoc register_attempts_counts
        register_attempt_def trailing_run_snoc)
qed

theorem register_attempt_sequence_witness:
  "register_attempts ExerciseState_init [True, False, True, True] =
     \<lparr>total_attempts = 4, correct_attempts = 3, current_streak = 2\<rparr>
   \<and> trailing_run [True, False, True, True] = 2"
  using register_attempt_sequence [of "[True, False, True]" True]
  by (simp add: register_attempts_def register_attempt_def ExerciseState_init_def
      trailing_run_def)

text \<open>
  C9. After any sequence of \<open>register_attempt\<close> calls from the initial state,
  \<open>current_streak\<close> is at most \<open>correct_attempts\<close>, and so at most \<open>total_attempts\<close>;
  it is never negative.
\<close>

theorem streak_le_correct:
  "let s = register_attempts ExerciseState_init outcomes
   in 0 \<le> current_streak s \<and> current_streak s \<le> correct_attempts s
      \<and> current_streak s \<le> total_attempts s"
  unfolding Let_def register_attempts_counts
  using trailing_run_le [of outcomes] le_trans [OF trailing_run_le length_filter_le, of outcomes]
  by simp

theorem streak_le_correct_witness:
  "current_streak (register_attempts ExerciseState_init [True, True, False, True]) = 1
   \<and> correct_attempts (register_attempts ExerciseState_init [True, True, False, True]) = 3"
  using streak_le_correct [of "[True, True, False, True]"]
  by (simp add: register_attempts_def register_attempt_def ExerciseState_init_def)


text \<open>
  The dataclass accepts any three integers; outside \<open>0 \<le> correct \<le> total\<close> the
  quotient leaves the unit interval.
\<close>

lemma accuracy_outside_unit_interval:
  "accuracy \<lparr>total_attempts = 1, correct_attempts = 2, current_streak = 0\<rparr> = Inr 2"
  by (simp add: accuracy_def truediv_def)



section \<open>The catalog: drawing a vocabulary item\<close>

lemma choice_member: "xs \<noteq> [] \<Longrightarrow> \<exists>x. choice r xs = Inr x \<and> x \<in> set xs"
  by (simp add: choice_def)

lemma choice_every: "x \<in> set xs \<Longrightarrow> \<exists>r. choice r xs = Inr x"
proof -
  assume "x \<in> set xs"
  then obtain i where i: "i < length xs" "xs ! i = x"
    by (auto simp: in_set_conv_nth)
  then have "choice i xs = Inr x"
    by (auto simp: choice_def)
  then show ?thesis ..
qed

lemma VOCABULARY_nonempty: "VOCABULARY \<noteq> []"
  by (simp add: VOCABULARY_def)

lemma VOCABULARY_categories:
  "VocabularyItem.category ` set VOCABULARY = {''greetings'', ''food'', ''home'', ''animals''}"
  by (auto simp add: VOCABULARY_def)

lemma random_vocabulary_item_all:
  "falsy c \<or> c = Some ''all'' \<Longrightarrow> random_vocabulary_item v r c = choice r v"
  by (simp add: random_vocabulary_item_def)

lemma random_vocabulary_item_fallback:
  "cat \<notin> VocabularyItem.category ` set v \<Longrightarrow> random_vocabulary_item v r (Some cat) = choice r v"
  by (auto simp add: random_vocabulary_item_def Let_def filter_empty_conv)

lemma random_vocabulary_item_filtered:
  assumes "cat \<in> VocabularyItem.category ` set v" and "cat \<noteq> []" and "cat \<noteq> ''all''"
  shows "\<exists>item. random_vocabulary_item v r (Some cat) = Inr item \<and> item \<in> set v
           \<and> VocabularyItem.category item = cat"
proof -
  let ?filtered = "filter (\<lambda>item. Some (VocabularyItem.category item) = Some cat) v"
  from assms(1) have ne: "?filtered \<noteq> []"
    by (auto simp add: filter_empty_conv)
  then obtain item where "choice r ?filtered = Inr item" "item \<in> set ?filtered"
    using choice_member by blast
  moreover have "random_vocabulary_item v r (Some cat) = choice r ?filtered"
    using ne assms(2,3) by (simp add: random_vocabulary_item_def falsy_def)
  ultimately show ?thesis by auto
qed

text \<open>
  C4. A call \<open>random_vocabulary_item(c)\<close> on the catalog never fails and returns an item
  of the catalog. When \<open>c\<close> is absent or "all" the item is the one drawn from the whole
  catalog, and every item of the catalog is drawn for some draw. When \<open>c\<close> is a category
  that an item of the catalog carries, the returned item's category is \<open>c\<close>. When no
  item carries \<open>c\<close>, the item is again the one drawn from the whole catalog.
\<close>

theorem random_vocabulary_item_cases:
  "(c = None \<or> c = Some ''all'' \<longrightarrow> random_vocabulary_item VOCABULARY r c = choice r VOCABULARY)
   \<and> (\<forall>cat. c = Some cat \<and> cat \<in> VocabularyItem.category ` set VOCABULARY \<longrightarrow>
         (\<exists>item. random_vocabulary_item VOCABULARY r c = Inr item \<and> item \<in> set VOCABULARY
            \<and> VocabularyItem.category item = cat))
   \<and> (\<forall>cat. c = Some cat \<and> cat \<notin> VocabularyItem.category ` set VOCABULARY \<longrightarrow>
         random_vocabulary_item VOCABULARY r c = choice r VOCABULARY)
   \<and> (\<exists>item. choice r VOCABULARY = Inr item \<and> item \<in> set VOCABULARY)
   \<and> (\<exists>item. random_vocabulary_item VOCABULARY r c = Inr item \<and> item \<in> set VOCABULARY)
   \<and> (\<forall>item \<in> set VOCABULARY. \<exists>r'. choice r' VOCABULARY = Inr item)"
proof -
  have whole: "\<exists>item. choice r VOCABULARY = Inr item \<and> item \<in> set VOCABULARY"
    using choice_member [OF VOCABULARY_nonempty] .
  have a: "c = None \<or> c = Some ''all'' \<longrightarrow> random_vocabulary_item VOCABULARY r c = choice r VOCABULARY"
    by (auto simp add: random_vocabulary_item_all falsy_def)
  have b: "\<exists>item. random_vocabulary_item VOCABULARY r c = Inr item \<and> item \<in> set VOCABULARY
            \<and> VocabularyItem.category item = cat"
    if "c = Some cat" and "cat \<in> VocabularyItem.category ` set VOCABULARY" for cat
  proof -
    from that(2) have "cat \<noteq> []" "cat \<noteq> ''all''"
      unfolding VOCABULARY_categories by auto
    with that show ?thesis
      using random_vocabulary_item_filtered [of cat VOCABULARY r] by simp
  qed
  have c: "random_vocabulary_item VOCABULARY r c = choice r VOCABULARY"
    if "c = Some cat" and "cat \<notin> VocabularyItem.category ` set VOCABULARY" for cat
    using that random_vocabulary_item_fallback [of cat VOCABULARY r] by simp
  have d: "\<exists>item. random_vocabulary_item VOCABULARY r c = Inr item \<and> item \<in> set VOCABULARY"
  proof (cases c)
    case None
    with a whole show ?thesis by simp
  next
    case (Some cat)
    show ?thesis
    proof (cases "cat \<in> VocabularyItem.category ` set VOCABULARY")
      case True
      with b [OF Some] show ?thesis by blast
    next
      case False
      with c [OF Some] whole show ?thesis by simp
    qed
  qed
  have e: "\<forall>item \<in> set VOCABULARY. \<exists>r'. choice r' VOCABULARY = Inr item"
    using choice_every by fast
  from a b c whole d e show ?thesis by blast
qed

theorem random_vocabulary_item_cases_witness:
  "''animals'' \<in> VocabularyItem.category ` set VOCABULARY
   \<and> (\<exists>item. random_vocabulary_item VOCABULARY 7 (Some ''animals'') = Inr item
          \<and> item \<in> set VOCABULARY \<and> VocabularyItem.category item = ''animals'')
   \<and> random_vocabulary_item VOCABULARY 7 (Some ''animals'') =
        Inr (VocabularyItem ''oiseau'' ''bird'' ''animals'')
   \<and> ''nonexistent-category'' \<notin> VocabularyItem.category ` set VOCABULARY
   \<and> random_vocabulary_item VOCABULARY 7 (Some ''nonexistent-category'') =
        Inr (VocabularyItem ''eau'' ''water'' ''food'')
   \<and> random_vocabulary_item VOCABULARY 7 None = Inr (VocabularyItem ''eau'' ''water'' ''food'')"
proof -
  have inside: "''animals'' \<in> VocabularyItem.category ` set VOCABULARY"
    by (simp add: VOCABULARY_categories)
  have outside: "''nonexistent-category'' \<notin> VocabularyItem.category ` set VOCABULARY"
    by (simp add: VOCABULARY_categories)
  from random_vocabulary_item_cases [of "Some ''animals''" 7] inside
  have filtered: "\<exists>item. random_vocabulary_item VOCABULARY 7 (Some ''animals'') = Inr item
      \<and> item \<in> set VOCABULARY \<and> VocabularyItem.category item = ''animals''"
    by blast
  from random_vocabulary_item_cases [of "Some ''nonexistent-category''" 7] outside
  have fallback: "random_vocabulary_item VOCABULARY 7 (Some ''nonexistent-category'') =
      choice 7 VOCABULARY"
    by blast
  from random_vocabulary_item_cases [of None 7]
  have absent: "random_vocabulary_item VOCABULARY 7 None = choice 7 VOCABULARY"
    by blast
  have drawn: "choice 7 VOCABULARY = Inr (VocabularyItem ''eau'' ''water'' ''food'')"
    by (simp add: choice_def VOCABULARY_def)
  have bird: "random_vocabulary_item VOCABULARY 7 (Some ''animals'') =
      Inr (VocabularyItem ''oiseau'' ''bird'' ''animals'')"
    by (simp add: random_vocabulary_item_def choice_def falsy_def VOCABULARY_def)
  from inside outside filtered fallback absent drawn bird show ?thesis
    by (simp only: simp_thms)
qed

text \<open>
  C10. On any catalog, also one with items of category "" or "all", the filters None,
  "" and "all" give the item drawn from the whole catalog: the test of the filter
  comes before the filtered list, which is not consulted.
\<close>

theorem random_vocabulary_item_falsy:
  "random_vocabulary_item v r None = choice r v
   \<and> random_vocabulary_item v r (Some '''') = choice r v
   \<and> random_vocabulary_item v r (Some ''all'') = choice r v"
  by (simp add: random_vocabulary_item_def falsy_def)

theorem random_vocabulary_item_falsy_witness:
  "random_vocabulary_item [VocabularyItem ''oui'' ''yes'' '''', VocabularyItem ''non'' ''no'' ''all'',
      VocabularyItem ''chat'' ''cat'' ''animals''] 2 (Some '''') = Inr (VocabularyItem ''chat'' ''cat'' ''animals'')
  \<and> random_vocabulary_item [VocabularyItem ''oui'' ''yes'' '''', VocabularyItem ''non'' ''no'' ''all'',
      VocabularyItem ''chat'' ''cat'' ''animals''] 2 (Some ''all'') = Inr (VocabularyItem ''chat'' ''cat'' ''animals'')
  \<and> random_vocabulary_item VOCABULARY 0 (Some '''') = random_vocabulary_item VOCABULARY 0 None"
  using random_vocabulary_item_falsy [of "[VocabularyItem ''oui'' ''yes'' '''', VocabularyItem ''non'' ''no'' ''all'',
      VocabularyItem ''chat'' ''cat'' ''animals'']" 2] random_vocabulary_item_falsy [of VOCABULARY 0]
  by (simp add: choice_def)

section \<open>Checking an answer\<close>

lemma random_vocabulary_item_total:
  assumes "v \<noteq> []"
  shows "\<exists>item. random_vocabulary_item v r c = Inr item \<and> item \<in> set v"
proof -
  let ?filtered = "filter (\<lambda>item. Some (VocabularyItem.category item) = c) v"
  have "random_vocabulary_item v r c = choice r v
      \<or> (?filtered \<noteq> [] \<and> random_vocabulary_item v r c = choice r ?filtered)"
    by (simp add: random_vocabulary_item_def Let_def)
  then show ?thesis
  proof
    assume "random_vocabulary_item v r c = choice r v"
    with choice_member [OF assms, of r] show ?thesis by simp
  next
    assume f: "?filtered \<noteq> [] \<and> random_vocabulary_item v r c = choice r ?filtered"
    then obtain item where "choice r ?filtered = Inr item" "item \<in> set ?filtered"
      using choice_member by blast
    with f show ?thesis by auto
  qed
qed

lemma FlashcardExercise_next_prompt_returns:
  "\<exists>item. item \<in> set VOCABULARY
     \<and> FlashcardExercise_next_prompt r e = Inr (item, e\<lparr>current_item := Some item\<rparr>)"
  using random_vocabulary_item_total [OF VOCABULARY_nonempty, of r "FlashcardExercise.category e"]
  by (auto simp add: FlashcardExercise_next_prompt_def)

lemma FlashcardExercise_check_answer_current:
  "current_item e = Some item \<Longrightarrow>
     FlashcardExercise_check_answer r e s =
       Inr (lower (strip s) = lower (english item),
            e\<lparr>FlashcardExercise.state :=
                 register_attempt (FlashcardExercise.state e)
                   (lower (strip s) = lower (english item))\<rparr>)"
  by (simp add: FlashcardExercise_check_answer_def Let_def)

lemma FlashcardExercise_check_answer_absent:
  "current_item e = None \<Longrightarrow> FlashcardExercise_next_prompt r e = Inr (item, e1) \<Longrightarrow>
     FlashcardExercise_check_answer r e s = FlashcardExercise_check_answer r e1 s
     \<and> current_item e1 = Some item"
  using FlashcardExercise_next_prompt_returns [of r e]
  by (auto simp add: FlashcardExercise_check_answer_def Let_def)

lemma PRESENT_TENSE_nonempty: "PRESENT_TENSE \<noteq> []"
  by (simp add: PRESENT_TENSE_def)

lemma index_pronouns_je: "index (pronouns p) ''je'' = Inr 0"
  by (simp add: pronouns_def)

lemma length_pronouns: "length (pronouns p) = 6"
  by (simp add: pronouns_def)

lemma length_answers: "length (answers p) = 6"
  by (simp add: answers_def)

lemma getitem_in_range:
  "0 \<le> i \<Longrightarrow> i < int (length xs) \<Longrightarrow> getitem xs i = Inr (xs ! nat i)"
  by (simp add: getitem_def)

lemma ConjugationExercise_next_prompt_returns:
  "\<exists>p. p \<in> set PRESENT_TENSE
     \<and> ConjugationExercise_next_prompt r e =
         Inr ((infinitive p, ''je''), e\<lparr>current_pattern := Some p, current_index := 0\<rparr>)"
proof -
  obtain p where p: "choice r PRESENT_TENSE = Inr p" "p \<in> set PRESENT_TENSE"
    using choice_member [OF PRESENT_TENSE_nonempty] by blast
  have "getitem (pronouns p) 0 = Inr ''je''"
    by (simp add: getitem_def pronouns_def)
  with p have "ConjugationExercise_next_prompt r e =
         Inr ((infinitive p, ''je''), e\<lparr>current_pattern := Some p, current_index := 0\<rparr>)"
    by (simp add: ConjugationExercise_next_prompt_def random_conjugation_pattern_def
        index_pronouns_je Let_def)
  with p show ?thesis by blast
qed

lemma ConjugationExercise_check_answer_current:
  "current_pattern e = Some p \<Longrightarrow> getitem (answers p) (current_index e) = Inr expected \<Longrightarrow>
     ConjugationExercise_check_answer r e s =
       Inr (lower (strip s) = lower expected,
            e\<lparr>ConjugationExercise.state :=
                 register_attempt (ConjugationExercise.state e)
                   (lower (strip s) = lower expected)\<rparr>)"
  by (simp add: ConjugationExercise_check_answer_def Let_def)

lemma ConjugationExercise_check_answer_raises:
  "current_pattern e = Some p \<Longrightarrow> getitem (answers p) (current_index e) = Inl err \<Longrightarrow>
     ConjugationExercise_check_answer r e s = Inl err"
  by (simp add: ConjugationExercise_check_answer_def Let_def)

lemma ConjugationExercise_check_answer_absent:
  "current_pattern e = None \<Longrightarrow> ConjugationExercise_next_prompt r e = Inr (prompt, e1) \<Longrightarrow>
     ConjugationExercise_check_answer r e s = ConjugationExercise_check_answer r e1 s"
  using ConjugationExercise_next_prompt_returns [of r e]
  by (auto simp add: ConjugationExercise_check_answer_def Let_def)

lemma strip_example: "lower (strip ''  Hello  '') = lower ''hello''"
  by code_simp

text \<open>
  What \<open>strip\<close> removes is whitespace at the two ends, and what it leaves neither
  starts nor ends with whitespace.
\<close>

lemma rev_dropWhile_takeWhile:
  "t = rev (dropWhile P (rev t)) @ rev (takeWhile P (rev t))"
proof -
  have "rev t = takeWhile P (rev t) @ dropWhile P (rev t)"
    by simp
  then have "rev (rev t) = rev (takeWhile P (rev t) @ dropWhile P (rev t))"
    by (rule arg_cong)
  then show ?thesis
    by (simp only: rev_rev_ident rev_append)
qed

lemma strip_decomposition:
  "\<exists>pre post. s = pre @ strip s @ post \<and> (\<forall>c \<in> set pre. isspace c) \<and> (\<forall>c \<in> set post. isspace c)"
proof -
  let ?t = "dropWhile isspace s"
  let ?pre = "takeWhile isspace s"
  let ?post = "rev (takeWhile isspace (rev ?t))"
  have "?t = strip s @ ?post"
    unfolding strip_def by (rule rev_dropWhile_takeWhile)
  then have "s = ?pre @ strip s @ ?post"
    using takeWhile_dropWhile_id [of isspace s] by simp
  moreover have "\<forall>c \<in> set ?pre. isspace c"
    by (auto dest: set_takeWhileD)
  moreover have "\<forall>c \<in> set ?post. isspace c"
    by (auto dest: set_takeWhileD)
  ultimately show ?thesis by blast
qed

lemma strip_ends:
  assumes "strip s \<noteq> []"
  shows "\<not> isspace (hd (strip s)) \<and> \<not> isspace (last (strip s))"
proof -
  let ?t = "dropWhile isspace s"
  let ?u = "dropWhile isspace (rev ?t)"
  from assms have u: "?u \<noteq> []" by (simp add: strip_def)
  then have "\<not> isspace (hd ?u)" by (rule hd_dropWhile)
  with u have last: "\<not> isspace (last (strip s))"
    by (simp add: strip_def last_rev)
  have t: "?t \<noteq> []"
    using u by (metis dropWhile.simps(1) rev.simps(1))
  then have "\<not> isspace (hd ?t)" by (rule hd_dropWhile)
  moreover have "?t = strip s @ rev (takeWhile isspace (rev ?t))"
    unfolding strip_def by (rule rev_dropWhile_takeWhile)
  then have "hd ?t = hd (strip s)"
    using assms by (metis hd_append2)
  ultimately show ?thesis using last by simp
qed

text \<open>
  C2. With a current item, \<open>FlashcardExercise.check_answer(s)\<close> returns whether \<open>s\<close>,
  stripped of surrounding whitespace and lower-cased, equals the item's English
  translation lower-cased, and the value returned is the one given to
  \<open>register_attempt\<close>; "  Hello  " against "hello" is judged correct. With a current
  pattern and a slot index from 0 to 5, \<open>ConjugationExercise.check_answer\<close> compares in
  the same way against the form at the active slot.
\<close>

theorem check_answer_policy:
  "(current_item e = Some item \<longrightarrow>
      FlashcardExercise_check_answer r e s =
        Inr (lower (strip s) = lower (english item),
             e\<lparr>FlashcardExercise.state :=
                  register_attempt (FlashcardExercise.state e)
                    (lower (strip s) = lower (english item))\<rparr>))
   \<and> (current_item e = Some item \<and> english item = ''hello'' \<longrightarrow>
        (\<exists>e'. FlashcardExercise_check_answer r e ''  Hello  '' = Inr (True, e')))
   \<and> (current_pattern ce = Some p \<and> 0 \<le> current_index ce \<and> current_index ce < 6 \<longrightarrow>
        ConjugationExercise_check_answer r ce s =
          Inr (lower (strip s) = lower (answers p ! nat (current_index ce)),
               ce\<lparr>ConjugationExercise.state :=
                    register_attempt (ConjugationExercise.state ce)
                      (lower (strip s) = lower (answers p ! nat (current_index ce)))\<rparr>))"
proof -
  have "ConjugationExercise_check_answer r ce s =
          Inr (lower (strip s) = lower (answers p ! nat (current_index ce)),
               ce\<lparr>ConjugationExercise.state :=
                    register_attempt (ConjugationExercise.state ce)
                      (lower (strip s) = lower (answers p ! nat (current_index ce)))\<rparr>)"
    if "current_pattern ce = Some p" and "0 \<le> current_index ce" and "current_index ce < 6"
    using that ConjugationExercise_check_answer_current [of ce p "answers p ! nat (current_index ce)" r s]
      getitem_in_range [of "current_index ce" "answers p"]
    by (simp add: length_answers)
  moreover have "\<exists>e'. FlashcardExercise_check_answer r e ''  Hello  '' = Inr (True, e')"
    if "current_item e = Some item" and "english item = ''hello''"
    using that FlashcardExercise_check_answer_current [of e item r "''  Hello  ''"] strip_example
    by simp
  ultimately show ?thesis
    using FlashcardExercise_check_answer_current [of e item r s] by blast
qed

theorem check_answer_policy_witness:
  "FlashcardExercise_check_answer 0
      (FlashcardExercise_init\<lparr>current_item := Some (VocabularyItem ''bonjour'' ''hello'' ''greetings'')\<rparr>)
      ''  Hello  '' =
     Inr (True,
       \<lparr>category = None,
        state = \<lparr>total_attempts = 1, correct_attempts = 1, current_streak = 1\<rparr>,
        current_item = Some (VocabularyItem ''bonjour'' ''hello'' ''greetings'')\<rparr>)
   \<and> ConjugationExercise_check_answer 0
      \<lparr>state = \<lparr>total_attempts = 3, correct_attempts = 3, current_streak = 3\<rparr>,
       current_pattern = Some (ConjugationPattern ''parler'' ''parle'' ''parles'' ''parle''
          ''parlons'' ''parlez'' ''parlent''),
       current_index = 0\<rparr>
      ''parles'' =
     Inr (False,
       \<lparr>state = \<lparr>total_attempts = 4, correct_attempts = 3, current_streak = 0\<rparr>,
        current_pattern = Some (ConjugationPattern ''parler'' ''parle'' ''parles'' ''parle''
          ''parlons'' ''parlez'' ''parlent''),
        current_index = 0\<rparr>)"
proof -
  have hello: "(lower (strip ''  Hello  '') = lower ''hello'') = True"
    by code_simp
  have parles: "(lower (strip ''parles'') = lower ''parle'') = False"
    by code_simp
  show ?thesis
    using check_answer_policy [of
        "FlashcardExercise_init\<lparr>current_item := Some (VocabularyItem ''bonjour'' ''hello'' ''greetings'')\<rparr>"
        "VocabularyItem ''bonjour'' ''hello'' ''greetings''"
        0 "''  Hello  ''"
        "\<lparr>state = \<lparr>total_attempts = 3, correct_attempts = 3, current_streak = 3\<rparr>,
          current_pattern = Some (ConjugationPattern ''parler'' ''parle'' ''parles'' ''parle''
            ''parlons'' ''parlez'' ''parlent''),
          current_index = 0\<rparr>"
        "ConjugationPattern ''parler'' ''parle'' ''parles'' ''parle''
            ''parlons'' ''parlez'' ''parlent''"]
      check_answer_policy [of
        "FlashcardExercise_init"
        "VocabularyItem ''bonjour'' ''hello'' ''greetings''"
        0 "''parles''"
        "\<lparr>state = \<lparr>total_attempts = 3, correct_attempts = 3, current_streak = 3\<rparr>,
          current_pattern = Some (ConjugationPattern ''parler'' ''parle'' ''parles'' ''parle''
            ''parlons'' ''parlez'' ''parlent''),
          current_index = 0\<rparr>"
        "ConjugationPattern ''parler'' ''parle'' ''parles'' ''parle''
            ''parlons'' ''parlez'' ''parlent''"]
    by (simp add: hello parles FlashcardExercise_init_def ExerciseState_init_def
        register_attempt_def answers_def)
qed

lemma getitem_cases:
  "getitem xs i =
     (if - int (length xs) \<le> i \<and> i < int (length xs)
      then Inr (xs ! nat (if i < 0 then int (length xs) + i else i))
      else Inl IndexError)"
  by (simp add: getitem_def)

text \<open>
  C6. Without a current item, \<open>FlashcardExercise.check_answer\<close> first performs
  \<open>next_prompt\<close>: it does not fail, the item drawn from the catalog is the current item
  afterwards, and the answer is compared with that item. Without a current pattern,
  \<open>ConjugationExercise.check_answer\<close> does the same: afterwards a pattern of the static
  list is current, the slot index is 0, the position of "je", and the answer is compared
  with the first-person form.
\<close>

theorem check_answer_draws_prompt:
  "(current_item e = None \<longrightarrow>
      (\<exists>item b e'. item \<in> set VOCABULARY
         \<and> FlashcardExercise_next_prompt r e = Inr (item, e\<lparr>current_item := Some item\<rparr>)
         \<and> FlashcardExercise_check_answer r e s = Inr (b, e')
         \<and> current_item e' = Some item
         \<and> b = (lower (strip s) = lower (english item))
         \<and> e' = e\<lparr>current_item := Some item,
                   FlashcardExercise.state := register_attempt (FlashcardExercise.state e) b\<rparr>))
   \<and> (current_pattern ce = None \<longrightarrow>
      (\<exists>p b e'. p \<in> set PRESENT_TENSE
         \<and> ConjugationExercise_next_prompt r ce =
             Inr ((infinitive p, ''je''), ce\<lparr>current_pattern := Some p, current_index := 0\<rparr>)
         \<and> ConjugationExercise_check_answer r ce s = Inr (b, e')
         \<and> current_pattern e' = Some p \<and> current_index e' = 0
         \<and> getitem (pronouns p) (current_index e') = Inr ''je''
         \<and> b = (lower (strip s) = lower (je p))
         \<and> e' = ce\<lparr>current_pattern := Some p, current_index := 0,
                    ConjugationExercise.state :=
                      register_attempt (ConjugationExercise.state ce) b\<rparr>))"
proof (intro conjI impI)
  assume none: "current_item e = None"
  obtain item where item: "item \<in> set VOCABULARY"
      "FlashcardExercise_next_prompt r e = Inr (item, e\<lparr>current_item := Some item\<rparr>)"
    using FlashcardExercise_next_prompt_returns by blast
  let ?e1 = "e\<lparr>current_item := Some item\<rparr>"
  let ?b = "lower (strip s) = lower (english item)"
  have "FlashcardExercise_check_answer r e s = FlashcardExercise_check_answer r ?e1 s"
    using FlashcardExercise_check_answer_absent [OF none item(2)] by simp
  also have "\<dots> = Inr (?b, ?e1\<lparr>FlashcardExercise.state :=
      register_attempt (FlashcardExercise.state ?e1) ?b\<rparr>)"
    by (rule FlashcardExercise_check_answer_current) simp
  finally have "FlashcardExercise_check_answer r e s =
      Inr (?b, e\<lparr>current_item := Some item,
        FlashcardExercise.state := register_attempt (FlashcardExercise.state e) ?b\<rparr>)"
    by simp
  with item show "\<exists>item b e'. item \<in> set VOCABULARY
         \<and> FlashcardExercise_next_prompt r e = Inr (item, e\<lparr>current_item := Some item\<rparr>)
         \<and> FlashcardExercise_check_answer r e s = Inr (b, e')
         \<and> current_item e' = Some item
         \<and> b = (lower (strip s) = lower (english item))
         \<and> e' = e\<lparr>current_item := Some item,
                   FlashcardExercise.state := register_attempt (FlashcardExercise.state e) b\<rparr>"
    by simp
next
  assume none: "current_pattern ce = None"
  obtain p where p: "p \<in> set PRESENT_TENSE"
      "ConjugationExercise_next_prompt r ce =
         Inr ((infinitive p, ''je''), ce\<lparr>current_pattern := Some p, current_index := 0\<rparr>)"
    using ConjugationExercise_next_prompt_returns by blast
  let ?e1 = "ce\<lparr>current_pattern := Some p, current_index := 0\<rparr>"
  let ?b = "lower (strip s) = lower (je p)"
  have je: "getitem (answers p) (current_index ?e1) = Inr (je p)"
    by (simp add: getitem_def answers_def)
  have label: "getitem (pronouns p) 0 = Inr ''je''"
    by (simp add: getitem_def pronouns_def)
  have "ConjugationExercise_check_answer r ce s = ConjugationExercise_check_answer r ?e1 s"
    using ConjugationExercise_check_answer_absent [OF none p(2)] .
  also have "\<dots> = Inr (?b, ?e1\<lparr>ConjugationExercise.state :=
      register_attempt (ConjugationExercise.state ?e1) ?b\<rparr>)"
    using je by (rule ConjugationExercise_check_answer_current [rotated]) simp
  finally have "ConjugationExercise_check_answer r ce s =
      Inr (?b, ce\<lparr>current_pattern := Some p, current_index := 0,
        ConjugationExercise.state := register_attempt (ConjugationExercise.state ce) ?b\<rparr>)"
    by simp
  with p label show "\<exists>p b e'. p \<in> set PRESENT_TENSE
         \<and> ConjugationExercise_next_prompt r ce =
             Inr ((infinitive p, ''je''), ce\<lparr>current_pattern := Some p, current_index := 0\<rparr>)
         \<and> ConjugationExercise_check_answer r ce s = Inr (b, e')
         \<and> current_pattern e' = Some p \<and> current_index e' = 0
         \<and> getitem (pronouns p) (current_index e') = Inr ''je''
         \<and> b = (lower (strip s) = lower (je p))
         \<and> e' = ce\<lparr>current_pattern := Some p, current_index := 0,
                    ConjugationExercise.state :=
                      register_attempt (ConjugationExercise.state ce) b\<rparr>"
    by simp
qed

theorem check_answer_draws_prompt_witness:
  "FlashcardExercise_check_answer 0 FlashcardExercise_init ''hello'' =
     Inr (True,
       \<lparr>category = None,
        state = \<lparr>total_attempts = 1, correct_attempts = 1, current_streak = 1\<rparr>,
        current_item = Some (VocabularyItem ''bonjour'' ''hello'' ''greetings'')\<rparr>)
   \<and> ConjugationExercise_check_answer 0 ConjugationExercise_init ''parles'' =
     Inr (False,
       \<lparr>state = \<lparr>total_attempts = 1, correct_attempts = 0, current_streak = 0\<rparr>,
        current_pattern = Some (ConjugationPattern ''parler'' ''parle'' ''parles'' ''parle''
          ''parlons'' ''parlez'' ''parlent''),
        current_index = 0\<rparr>)"
proof -
  let ?bonjour = "VocabularyItem ''bonjour'' ''hello'' ''greetings''"
  let ?parler = "ConjugationPattern ''parler'' ''parle'' ''parles'' ''parle''
          ''parlons'' ''parlez'' ''parlent''"
  have hello: "(lower (strip ''hello'') = lower ''hello'') = True"
    by code_simp
  have parles: "(lower (strip ''parles'') = lower ''parle'') = False"
    by code_simp
  have no_item: "current_item FlashcardExercise_init = None"
    by (simp add: FlashcardExercise_init_def)
  have no_pattern: "current_pattern ConjugationExercise_init = None"
    by (simp add: ConjugationExercise_init_def)
  have item_drawn: "FlashcardExercise_next_prompt 0 FlashcardExercise_init =
      Inr (?bonjour, FlashcardExercise_init\<lparr>current_item := Some ?bonjour\<rparr>)"
    by (simp add: FlashcardExercise_next_prompt_def random_vocabulary_item_def falsy_def
        choice_def VOCABULARY_def FlashcardExercise_init_def)
  have pattern_drawn: "ConjugationExercise_next_prompt 0 ConjugationExercise_init =
      Inr ((''parler'', ''je''),
        ConjugationExercise_init\<lparr>current_pattern := Some ?parler, current_index := 0\<rparr>)"
    by (simp add: ConjugationExercise_next_prompt_def random_conjugation_pattern_def
        choice_def PRESENT_TENSE_def index_pronouns_je getitem_def pronouns_def)
  from check_answer_draws_prompt [of FlashcardExercise_init 0 "''hello''"] no_item obtain item b e' where flash:
      "FlashcardExercise_next_prompt 0 FlashcardExercise_init =
         Inr (item, FlashcardExercise_init\<lparr>current_item := Some item\<rparr>)"
      "FlashcardExercise_check_answer 0 FlashcardExercise_init ''hello'' = Inr (b, e')"
      "b = (lower (strip ''hello'') = lower (english item))"
      "e' = FlashcardExercise_init\<lparr>current_item := Some item,
              FlashcardExercise.state :=
                register_attempt (FlashcardExercise.state FlashcardExercise_init) b\<rparr>"
    by blast
  from flash(1) item_drawn have "item = ?bonjour" by simp
  with flash hello have first: "FlashcardExercise_check_answer 0 FlashcardExercise_init ''hello'' =
     Inr (True,
       \<lparr>category = None,
        state = \<lparr>total_attempts = 1, correct_attempts = 1, current_streak = 1\<rparr>,
        current_item = Some ?bonjour\<rparr>)"
    by (simp add: FlashcardExercise_init_def ExerciseState_init_def register_attempt_def)
  from check_answer_draws_prompt [of FlashcardExercise_init 0 "''parles''"
      ConjugationExercise_init] no_pattern obtain p c ce' where conj:
      "ConjugationExercise_next_prompt 0 ConjugationExercise_init =
         Inr ((infinitive p, ''je''),
           ConjugationExercise_init\<lparr>current_pattern := Some p, current_index := 0\<rparr>)"
      "ConjugationExercise_check_answer 0 ConjugationExercise_init ''parles'' = Inr (c, ce')"
      "c = (lower (strip ''parles'') = lower (je p))"
      "ce' = ConjugationExercise_init\<lparr>current_pattern := Some p, current_index := 0,
               ConjugationExercise.state :=
                 register_attempt (ConjugationExercise.state ConjugationExercise_init) c\<rparr>"
    by blast
  from conj(1) pattern_drawn have "p = ?parler"
    by (simp add: ConjugationExercise_init_def)
  with conj parles have second: "ConjugationExercise_check_answer 0 ConjugationExercise_init ''parles'' =
     Inr (False,
       \<lparr>state = \<lparr>total_attempts = 1, correct_attempts = 0, current_streak = 0\<rparr>,
        current_pattern = Some ?parler, current_index = 0\<rparr>)"
    by (simp add: ConjugationExercise_init_def ExerciseState_init_def register_attempt_def)
  from first second show ?thesis by (rule conjI)
qed

text \<open>
  C7. With a current item, \<open>FlashcardExercise.check_answer\<close> returns and changes nothing
  but the session state: the current item and the category filter stay. With a current
  pattern, \<open>ConjugationExercise.check_answer\<close> leaves the pattern and the slot index as
  they are whenever it returns, which it does for every slot index that the tuple of
  forms accepts (from -6 to 5); for any other index it raises IndexError before any
  assignment.
\<close>

theorem check_answer_frame:
  "(current_item e = Some item \<longrightarrow>
      (\<exists>b. FlashcardExercise_check_answer r e s =
         Inr (b, e\<lparr>FlashcardExercise.state :=
                     register_attempt (FlashcardExercise.state e) b\<rparr>)))
   \<and> (\<forall>b e'. current_item e = Some item \<and> FlashcardExercise_check_answer r e s = Inr (b, e')
         \<longrightarrow> current_item e' = current_item e
             \<and> FlashcardExercise.category e' = FlashcardExercise.category e)
   \<and> (current_pattern ce = Some p \<and> - 6 \<le> current_index ce \<and> current_index ce < 6 \<longrightarrow>
      (\<exists>b. ConjugationExercise_check_answer r ce s =
         Inr (b, ce\<lparr>ConjugationExercise.state :=
                      register_attempt (ConjugationExercise.state ce) b\<rparr>)))
   \<and> (current_pattern ce = Some p \<and> \<not> (- 6 \<le> current_index ce \<and> current_index ce < 6) \<longrightarrow>
        ConjugationExercise_check_answer r ce s = Inl IndexError)
   \<and> (\<forall>b e'. current_pattern ce = Some p \<and> ConjugationExercise_check_answer r ce s = Inr (b, e')
         \<longrightarrow> current_pattern e' = current_pattern ce \<and> current_index e' = current_index ce)"
proof -
  have flash: "\<exists>b. FlashcardExercise_check_answer r e s =
         Inr (b, e\<lparr>FlashcardExercise.state :=
                     register_attempt (FlashcardExercise.state e) b\<rparr>)"
    if "current_item e = Some item"
    using FlashcardExercise_check_answer_current [OF that] by blast
  have inside: "\<exists>b. ConjugationExercise_check_answer r ce s =
         Inr (b, ce\<lparr>ConjugationExercise.state :=
                      register_attempt (ConjugationExercise.state ce) b\<rparr>)"
    if "current_pattern ce = Some p" and "- 6 \<le> current_index ce" and "current_index ce < 6"
  proof -
    from that(2,3) obtain expected where "getitem (answers p) (current_index ce) = Inr expected"
      by (simp add: getitem_cases length_answers)
    from ConjugationExercise_check_answer_current [OF that(1) this] show ?thesis by blast
  qed
  have outside: "ConjugationExercise_check_answer r ce s = Inl IndexError"
    if "current_pattern ce = Some p" and "\<not> (- 6 \<le> current_index ce \<and> current_index ce < 6)"
  proof -
    from that(2) have "getitem (answers p) (current_index ce) = Inl IndexError"
      by (simp add: getitem_cases length_answers)
    with that(1) show ?thesis by (rule ConjugationExercise_check_answer_raises)
  qed
  have flash_frame: "current_item e' = current_item e
      \<and> FlashcardExercise.category e' = FlashcardExercise.category e"
    if "current_item e = Some item" and "FlashcardExercise_check_answer r e s = Inr (b, e')"
    for b e'
    using flash [OF that(1)] that(2) by auto
  have conj_frame: "current_pattern e' = current_pattern ce \<and> current_index e' = current_index ce"
    if "current_pattern ce = Some p" and "ConjugationExercise_check_answer r ce s = Inr (b, e')"
    for b e'
  proof (cases "- 6 \<le> current_index ce \<and> current_index ce < 6")
    case True
    with inside [OF that(1)] that(2) show ?thesis by auto
  next
    case False
    with outside [OF that(1)] that(2) show ?thesis by simp
  qed
  from flash inside outside flash_frame conj_frame show ?thesis by blast
qed

theorem check_answer_frame_witness:
  "FlashcardExercise_check_answer 3
      \<lparr>category = Some ''food'', state = ExerciseState_init,
       current_item = Some (VocabularyItem ''pain'' ''bread'' ''food'')\<rparr> '' Bread'' =
     Inr (True,
       \<lparr>category = Some ''food'',
        state = \<lparr>total_attempts = 1, correct_attempts = 1, current_streak = 1\<rparr>,
        current_item = Some (VocabularyItem ''pain'' ''bread'' ''food'')\<rparr>)
   \<and> ConjugationExercise_check_answer 3
      \<lparr>state = ExerciseState_init,
       current_pattern = Some (ConjugationPattern ''avoir'' ''ai'' ''as'' ''a'' ''avons''
         ''avez'' ''ont''),
       current_index = 5\<rparr> ''ont'' =
     Inr (True,
       \<lparr>state = \<lparr>total_attempts = 1, correct_attempts = 1, current_streak = 1\<rparr>,
        current_pattern = Some (ConjugationPattern ''avoir'' ''ai'' ''as'' ''a'' ''avons''
          ''avez'' ''ont''),
        current_index = 5\<rparr>)
   \<and> ConjugationExercise_check_answer 3
      \<lparr>state = ExerciseState_init,
       current_pattern = Some (ConjugationPattern ''avoir'' ''ai'' ''as'' ''a'' ''avons''
         ''avez'' ''ont''),
       current_index = 7\<rparr> ''ont'' = Inl IndexError"
proof -
  let ?pain = "VocabularyItem ''pain'' ''bread'' ''food''"
  let ?avoir = "ConjugationPattern ''avoir'' ''ai'' ''as'' ''a'' ''avons'' ''avez'' ''ont''"
  let ?e = "\<lparr>category = Some ''food'', state = ExerciseState_init, current_item = Some ?pain\<rparr>"
  let ?ce = "\<lparr>state = ExerciseState_init, current_pattern = Some ?avoir, current_index = 5\<rparr>"
  let ?ce7 = "\<lparr>state = ExerciseState_init, current_pattern = Some ?avoir, current_index = 7\<rparr>"
  have bread: "(lower (strip '' Bread'') = lower ''bread'') = True"
    by code_simp
  have ont: "(lower (strip ''ont'') = lower ''ont'') = True"
    by code_simp
  from check_answer_frame [of ?e ?pain 3 "'' Bread''" ?ce ?avoir]
  obtain b where kept:
      "FlashcardExercise_check_answer 3 ?e '' Bread'' =
         Inr (b, ?e\<lparr>FlashcardExercise.state :=
                      register_attempt (FlashcardExercise.state ?e) b\<rparr>)"
    by auto
  have "FlashcardExercise_check_answer 3 ?e '' Bread'' =
         Inr (True, ?e\<lparr>FlashcardExercise.state :=
                      register_attempt (FlashcardExercise.state ?e) True\<rparr>)"
    using FlashcardExercise_check_answer_current [of ?e ?pain 3 "'' Bread''"] bread by simp
  with kept have first: "FlashcardExercise_check_answer 3 ?e '' Bread'' =
     Inr (True,
       \<lparr>category = Some ''food'',
        state = \<lparr>total_attempts = 1, correct_attempts = 1, current_streak = 1\<rparr>,
        current_item = Some ?pain\<rparr>)"
    by (simp add: ExerciseState_init_def register_attempt_def)
  from check_answer_frame [of ?e ?pain 3 "''ont''" ?ce ?avoir]
  obtain c where kept': "ConjugationExercise_check_answer 3 ?ce ''ont'' =
         Inr (c, ?ce\<lparr>ConjugationExercise.state :=
                      register_attempt (ConjugationExercise.state ?ce) c\<rparr>)"
    by auto
  have "ConjugationExercise_check_answer 3 ?ce ''ont'' =
         Inr (True, ?ce\<lparr>ConjugationExercise.state :=
                      register_attempt (ConjugationExercise.state ?ce) True\<rparr>)"
    using ConjugationExercise_check_answer_current [of ?ce ?avoir "''ont''" 3 "''ont''"] ont
    by (simp add: getitem_def answers_def)
  with kept' have second: "ConjugationExercise_check_answer 3 ?ce ''ont'' =
     Inr (True,
       \<lparr>state = \<lparr>total_attempts = 1, correct_attempts = 1, current_streak = 1\<rparr>,
        current_pattern = Some ?avoir, current_index = 5\<rparr>)"
    by (simp add: ExerciseState_init_def register_attempt_def)
  from check_answer_frame [of ?e ?pain 3 "''ont''" ?ce7 ?avoir]
  have third: "ConjugationExercise_check_answer 3 ?ce7 ''ont'' = Inl IndexError"
    by simp
  from first second third show ?thesis by (intro conjI)
qed

section \<open>Cycling through the pronouns\<close>

lemma pymod_pronouns: "pymod i (int (length (pronouns p))) = Inr (i mod 6)"
  by (simp add: pymod_def length_pronouns)

lemma ConjugationExercise_cycle_prompt_current:
  assumes "current_pattern e = Some p"
  shows "ConjugationExercise_cycle_prompt r e =
     Inr ((infinitive p, pronouns p ! nat ((current_index e + 1) mod 6)),
          e\<lparr>current_index := (current_index e + 1) mod 6\<rparr>)"
proof -
  have "getitem (pronouns p) ((current_index e + 1) mod 6) =
      Inr (pronouns p ! nat ((current_index e + 1) mod 6))"
    by (rule getitem_in_range) (simp_all add: length_pronouns)
  with assms show ?thesis
    by (simp add: ConjugationExercise_cycle_prompt_def pymod_pronouns Let_def)
qed

lemma cycle_prompts_step:
  assumes "current_pattern e = Some p"
  shows "cycle_prompts (r # rs) e =
     (case cycle_prompts rs (e\<lparr>current_index := (current_index e + 1) mod 6\<rparr>) of
        Inl err \<Rightarrow> Inl err
      | Inr (prompts, e2) \<Rightarrow>
          Inr ((infinitive p, pronouns p ! nat ((current_index e + 1) mod 6)) # prompts, e2))"
  by (simp add: ConjugationExercise_cycle_prompt_current [OF assms])

lemma cycle_prompts_index:
  "current_pattern e = Some p \<Longrightarrow>
     \<exists>prompts. cycle_prompts (r # rs) e =
         Inr (prompts, e\<lparr>current_index := (current_index e + 1 + int (length rs)) mod 6\<rparr>)
       \<and> length prompts = Suc (length rs)
       \<and> last prompts =
           (infinitive p, pronouns p ! nat ((current_index e + 1 + int (length rs)) mod 6))"
proof (induction rs arbitrary: r e)
  case Nil
  have "cycle_prompts [r] e =
      Inr ([(infinitive p, pronouns p ! nat ((current_index e + 1) mod 6))],
           e\<lparr>current_index := (current_index e + 1) mod 6\<rparr>)"
    unfolding cycle_prompts_step [OF Nil] by simp
  then show ?case by simp
next
  case (Cons r' rs)
  define e1 where "e1 = e\<lparr>current_index := (current_index e + 1) mod 6\<rparr>"
  define k where "k = (current_index e + 1 + int (length (r' # rs))) mod 6"
  have pattern: "current_pattern e1 = Some p"
    using Cons.prems by (simp add: e1_def)
  have arith: "(current_index e1 + 1 + int (length rs)) mod 6 = k"
  proof -
    have "((current_index e + 1) mod 6 + (1 + int (length rs))) mod 6 =
        (current_index e + 1 + (1 + int (length rs))) mod 6"
      by (rule mod_add_left_eq)
    then show ?thesis
      by (simp add: e1_def k_def add.assoc)
  qed
  have final: "e1\<lparr>current_index := k\<rparr> = e\<lparr>current_index := k\<rparr>"
    by (simp add: e1_def)
  from Cons.IH [OF pattern, of r'] obtain prompts where rest:
      "cycle_prompts (r' # rs) e1 = Inr (prompts, e1\<lparr>current_index := k\<rparr>)"
      "length prompts = Suc (length rs)"
      "last prompts = (infinitive p, pronouns p ! nat k)"
    unfolding arith by blast
  from rest(2) have nonempty: "prompts \<noteq> []" by auto
  let ?first = "(infinitive p, pronouns p ! nat ((current_index e + 1) mod 6))"
  have "cycle_prompts (r # r' # rs) e = Inr (?first # prompts, e\<lparr>current_index := k\<rparr>)"
    unfolding cycle_prompts_step [OF Cons.prems, of r "r' # rs"] e1_def [symmetric] rest(1) final
    by simp
  moreover have "length (?first # prompts) = Suc (length (r' # rs))"
    using rest(2) by simp
  moreover have "last (?first # prompts) = (infinitive p, pronouns p ! nat k)"
    using rest(3) nonempty by simp
  ultimately show ?case
    unfolding k_def by blast
qed

text \<open>
  Every exercise that \<open>cycle_prompt\<close> returns has its slot index between 0 and 5.
\<close>

lemma cycle_prompt_index_range:
  assumes "ConjugationExercise_cycle_prompt r e = Inr (prompt, e')"
  shows "0 \<le> current_index e' \<and> current_index e' < 6"
proof (cases "current_pattern e")
  case None
  with assms have "ConjugationExercise_next_prompt r e = Inr (prompt, e')"
    by (simp add: ConjugationExercise_cycle_prompt_def)
  with ConjugationExercise_next_prompt_returns [of r e] show ?thesis
    by auto
next
  case (Some p)
  from assms ConjugationExercise_cycle_prompt_current [OF Some, of r] show ?thesis
    by auto
qed

text \<open>
  C5. With a current pattern, \<open>cycle_prompt\<close> keeps the pattern (and everything but the
  slot index), sets the slot index to the old one plus 1 modulo 6, and returns the
  infinitive with the pronoun label at the new index. With a slot index from 0 to 5, six
  consecutive calls end in the exercise they started from, so slot index, pronoun and
  expected answer are back, and the sixth call returns the pronoun label that was active
  before the first. For any slot index, six calls leave the index reduced modulo 6.
  \<open>next_prompt\<close> sets the slot index to 0, the position of "je".
\<close>

theorem cycle_prompt_period:
  "(current_pattern e = Some p \<longrightarrow>
      ConjugationExercise_cycle_prompt r e =
        Inr ((infinitive p, pronouns p ! nat ((current_index e + 1) mod 6)),
             e\<lparr>current_index := (current_index e + 1) mod 6\<rparr>))
   \<and> (current_pattern e = Some p \<and> 0 \<le> current_index e \<and> current_index e < 6
        \<and> length rs = 6 \<longrightarrow>
        (\<exists>prompts. cycle_prompts rs e = Inr (prompts, e) \<and> length prompts = 6
           \<and> last prompts = (infinitive p, pronouns p ! nat (current_index e))))
   \<and> (current_pattern e = Some p \<and> length rs = 6 \<longrightarrow>
        (\<exists>prompts. cycle_prompts rs e =
           Inr (prompts, e\<lparr>current_index := current_index e mod 6\<rparr>)))
   \<and> (\<exists>p'. p' \<in> set PRESENT_TENSE \<and> index (pronouns p') ''je'' = Inr 0
        \<and> ConjugationExercise_next_prompt r e =
            Inr ((infinitive p', ''je''), e\<lparr>current_pattern := Some p', current_index := 0\<rparr>))"
proof -
  have any: "\<exists>prompts. cycle_prompts rs e =
        Inr (prompts, e\<lparr>current_index := current_index e mod 6\<rparr>)
      \<and> length prompts = 6
      \<and> last prompts = (infinitive p, pronouns p ! nat (current_index e mod 6))"
    if pattern: "current_pattern e = Some p" and draws: "length rs = 6"
  proof -
    from draws obtain r' rs' where rs: "rs = r' # rs'" "length rs' = 5"
      by (cases rs) auto
    have wraps: "(current_index e + 1 + int (length rs')) mod 6 = current_index e mod 6"
      using rs(2) by simp
    from cycle_prompts_index [OF pattern, of r' rs'] show ?thesis
      using rs(2) unfolding wraps rs(1) by (simp del: cycle_prompts.simps)
  qed
  have six: "\<exists>prompts. cycle_prompts rs e = Inr (prompts, e) \<and> length prompts = 6
           \<and> last prompts = (infinitive p, pronouns p ! nat (current_index e))"
    if pattern: "current_pattern e = Some p" and slot: "0 \<le> current_index e" "current_index e < 6"
      and draws: "length rs = 6"
  proof -
    from slot have "current_index e mod 6 = current_index e"
      by simp
    with any [OF pattern draws] show ?thesis
      by simp
  qed
  show ?thesis
    using six any ConjugationExercise_cycle_prompt_current [of e p r]
      ConjugationExercise_next_prompt_returns [of r e] index_pronouns_je
    by blast
qed

theorem cycle_prompt_period_witness:
  "ConjugationExercise_cycle_prompt 0
      \<lparr>state = ExerciseState_init,
       current_pattern = Some (ConjugationPattern ''parler'' ''parle'' ''parles'' ''parle''
         ''parlons'' ''parlez'' ''parlent''),
       current_index = 5\<rparr> =
     Inr ((''parler'', ''je''),
       \<lparr>state = ExerciseState_init,
        current_pattern = Some (ConjugationPattern ''parler'' ''parle'' ''parles'' ''parle''
          ''parlons'' ''parlez'' ''parlent''),
        current_index = 0\<rparr>)
   \<and> (\<exists>prompts. cycle_prompts [0, 1, 2, 3, 4, 5]
         \<lparr>state = ExerciseState_init,
          current_pattern = Some (ConjugationPattern ''parler'' ''parle'' ''parles'' ''parle''
            ''parlons'' ''parlez'' ''parlent''),
          current_index = 5\<rparr> =
        Inr (prompts,
          \<lparr>state = ExerciseState_init,
           current_pattern = Some (ConjugationPattern ''parler'' ''parle'' ''parles'' ''parle''
             ''parlons'' ''parlez'' ''parlent''),
           current_index = 5\<rparr>)
        \<and> last prompts = (''parler'', ''ils/elles''))"
proof -
  let ?parler = "ConjugationPattern ''parler'' ''parle'' ''parles'' ''parle''
         ''parlons'' ''parlez'' ''parlent''"
  let ?e = "\<lparr>state = ExerciseState_init, current_pattern = Some ?parler, current_index = 5\<rparr>"
  note period = cycle_prompt_period [of ?e ?parler 0 "[0, 1, 2, 3, 4, 5]"]
  from period have once: "ConjugationExercise_cycle_prompt 0 ?e =
      Inr ((''parler'', ''je''),
        \<lparr>state = ExerciseState_init, current_pattern = Some ?parler, current_index = 0\<rparr>)"
    by (simp add: pronouns_def)
  from period have "\<exists>prompts. cycle_prompts [0, 1, 2, 3, 4, 5] ?e = Inr (prompts, ?e)
      \<and> length prompts = 6 \<and> last prompts = (infinitive ?parler, pronouns ?parler ! nat 5)"
    by (simp del: cycle_prompts.simps)
  then have six: "\<exists>prompts. cycle_prompts [0, 1, 2, 3, 4, 5] ?e = Inr (prompts, ?e)
      \<and> last prompts = (''parler'', ''ils/elles'')"
    by (auto simp add: pronouns_def simp del: cycle_prompts.simps)
  from once six show ?thesis by (rule conjI)
qed

section \<open>The registry\<close>

lemma first_occurrences_snoc:
  "first_occurrences (xs @ [x]) =
     (if x \<in> set xs then first_occurrences xs else first_occurrences xs @ [x])"
  by (simp add: first_occurrences_def)

lemma set_first_occurrences: "set (first_occurrences xs) = set xs"
  by (simp add: first_occurrences_def)

lemma distinct_first_occurrences: "distinct (first_occurrences xs)"
  by (simp add: first_occurrences_def)

lemma registers_snoc:
  "registers reg (calls @ [(name, factory)]) = register (registers reg calls) name factory"
  by (simp add: registers_def)

lemma names_register:
  "names (register reg name factory) =
     (if name \<in> set (names reg) then names reg else names reg @ [name])"
  by (simp add: names_def register_def update_keys)

lemma names_registers:
  "names (registers ExerciseRegistry_init calls) = first_occurrences (map fst calls)"
proof (induction calls rule: rev_induct)
  case Nil
  show ?case
    by (simp add: registers_def names_def ExerciseRegistry_init_def first_occurrences_def)
next
  case (snoc call calls)
  obtain name factory where call: "call = (name, factory)"
    by (cases call)
  show ?case
    unfolding call registers_snoc names_register snoc.IH
    by (simp add: first_occurrences_snoc set_first_occurrences)
qed

lemma map_of_registers:
  "map_of (creators (registers ExerciseRegistry_init calls)) = map_of (rev calls)"
proof (induction calls rule: rev_induct)
  case Nil
  show ?case
    by (simp add: registers_def ExerciseRegistry_init_def)
next
  case (snoc call calls)
  obtain name factory where call: "call = (name, factory)"
    by (cases call)
  show ?case
    unfolding call registers_snoc
    by (simp add: register_def update_conv' snoc.IH)
qed

lemma create_lookup:
  "create reg name =
     (case map_of (creators reg) name of None \<Rightarrow> Inl KeyError | Some factory \<Rightarrow> Inr (factory ()))"
proof (cases "map_of (creators reg) name")
  case None
  then show ?thesis by (simp add: create_def)
next
  case (Some factory)
  then have "name \<in> fst ` set (creators reg)"
    by (metis map_of_eq_None_iff option.distinct(1))
  with Some show ?thesis by (simp add: create_def)
qed

text \<open>
  C8. Take the registry after any sequence of \<open>register\<close> calls on an empty one.
  \<open>create(name)\<close> returns what the factory registered under \<open>name\<close> builds (the one
  registered last, when there are several), and raises KeyError when no call registered
  \<open>name\<close>. \<open>names()\<close> is the list of the registered names, each once, in the order of
  their first registration; it is a function of the registry alone, so every traversal
  yields the same list.
\<close>

theorem registry_contract:
  "let reg = registers ExerciseRegistry_init calls
   in (\<forall>name factory. map_of (rev calls) name = Some factory \<longrightarrow>
         create reg name = Inr (factory ()))
      \<and> (\<forall>name. name \<notin> fst ` set calls \<longrightarrow> create reg name = Inl KeyError)
      \<and> (\<forall>name. name \<in> fst ` set calls \<longrightarrow> (\<exists>factory. (name, factory) \<in> set calls
            \<and> create reg name = Inr (factory ())))
      \<and> names reg = first_occurrences (map fst calls)
      \<and> set (names reg) = fst ` set calls
      \<and> distinct (names reg)"
proof -
  let ?reg = "registers ExerciseRegistry_init calls"
  have found: "create ?reg name = Inr (factory ())"
    if "map_of (rev calls) name = Some factory" for name factory
    using that by (simp add: create_lookup map_of_registers)
  have missing: "create ?reg name = Inl KeyError" if "name \<notin> fst ` set calls" for name
  proof -
    from that have "map_of (rev calls) name = None"
      by (simp add: map_of_eq_None_iff)
    then show ?thesis
      by (simp add: create_lookup map_of_registers)
  qed
  have present: "\<exists>factory. (name, factory) \<in> set calls \<and> create ?reg name = Inr (factory ())"
    if "name \<in> fst ` set calls" for name
  proof -
    from that have "map_of (rev calls) name \<noteq> None"
      by (simp add: map_of_eq_None_iff)
    then obtain factory where f: "map_of (rev calls) name = Some factory"
      by blast
    then have "(name, factory) \<in> set calls"
      using map_of_SomeD by fastforce
    with found [OF f] show ?thesis by blast
  qed
  have order: "names ?reg = first_occurrences (map fst calls)"
    by (rule names_registers)
  then have "set (names ?reg) = fst ` set calls" and "distinct (names ?reg)"
    by (simp_all add: set_first_occurrences distinct_first_occurrences)
  with found missing present order show ?thesis
    unfolding Let_def by blast
qed

lemma EXERCISES_registers:
  "EXERCISES = registers ExerciseRegistry_init
     [(''Flashcards'', \<lambda>_. Flashcards FlashcardExercise_init),
      (''Conjugation'', \<lambda>_. Conjugation ConjugationExercise_init)]"
  by (simp add: EXERCISES_def registers_def)

theorem registry_contract_witness:
  "create EXERCISES ''Flashcards'' = Inr (Flashcards FlashcardExercise_init)
   \<and> create EXERCISES ''Conjugation'' = Inr (Conjugation ConjugationExercise_init)
   \<and> create EXERCISES ''Unknown'' = Inl KeyError
   \<and> names EXERCISES = [''Flashcards'', ''Conjugation'']"
  using registry_contract [of "[(''Flashcards'', \<lambda>_. Flashcards FlashcardExercise_init),
      (''Conjugation'', \<lambda>_. Conjugation ConjugationExercise_init)]"]
  unfolding EXERCISES_registers [symmetric] Let_def
  by (simp add: first_occurrences_def)

end
